theory Spec2Isabelle
  imports Main
begin

section \<open>Python values, exceptions and the objects the provider handles\<close>

text \<open>
  The module \<open>flask_oauthlib/provider/oauth1.py\<close> is embedded function by function.
  A Python call either returns a value or raises; every method is a function into
  \<open>exn + 'a\<close>, with \<open>Inl\<close> the raised exception.
\<close>

datatype pyval =
    PNone
  | PBool bool
  | PInt int
  | PStr string
  | PTuple "pyval list"
  | PList "pyval list"

text \<open>Python truthiness of the values above (\<open>if x:\<close>, \<open>not x\<close>).\<close>

fun truthy :: "pyval \<Rightarrow> bool" where
  "truthy PNone = False"
| "truthy (PBool b) = b"
| "truthy (PInt i) = (i \<noteq> 0)"
| "truthy (PStr s) = (s \<noteq> [])"
| "truthy (PTuple xs) = (xs \<noteq> [])"
| "truthy (PList xs) = (xs \<noteq> [])"

text \<open>
  \<open>OAuth1Error\<close> of oauthlib, as far as this module reads it: the error code, and the
  description and uri it may carry.
\<close>

record oauth1_error =
  error :: string
  description :: string
  error_ref :: string

datatype exn =
    NameError string
  | AttributeError string
  | RuntimeError string
  | OAuth1Error oauth1_error
  | OtherError string

text \<open>
  The client object the client getter returns (docstring of \<open>clientgetter\<close>), and the
  token object the token and grant getters return, of which the module reads
  \<open>secret\<close> only. A getter that finds nothing returns \<open>None\<close>.
\<close>

record Client =
  client_key :: string
  client_secret :: string
  redirect_uris :: "string list"
  realms :: "string list"

record Token =
  secret :: string

text \<open>
  The oauthlib request object passed to every validator method. The module reads and
  writes its \<open>client\<close> attribute only; the other attributes are the record's
  remaining fields and its extension.
\<close>

record request =
  uri :: string
  http_method :: string
  body :: string
  headers :: "(string \<times> string) list"
  client :: "Client option"

text \<open>
  \<open>OAuth1RequestValidator\<close>: the three getters and the configuration dictionary
  (\<open>self._clientgetter\<close>, \<open>self._tokengetter\<close>, \<open>self._grantgetter\<close>,
  \<open>self._config\<close>).
\<close>

record validator =
  clientgetter :: "string \<Rightarrow> Client option"
  tokengetter :: "string \<Rightarrow> string \<Rightarrow> Token option"
  grantgetter :: "string \<Rightarrow> string \<Rightarrow> Token option"
  config :: "string \<rightharpoonup> pyval"

text \<open>
  \<open>__init__\<close>: \<open>if not config: config = {}\<close>. A missing configuration and an empty
  dictionary both give the empty dictionary.
\<close>

definition OAuth1RequestValidator ::
  "(string \<Rightarrow> Client option) \<Rightarrow> (string \<Rightarrow> string \<Rightarrow> Token option) \<Rightarrow>
   (string \<Rightarrow> string \<Rightarrow> Token option) \<Rightarrow> (string \<rightharpoonup> pyval) option \<Rightarrow> validator" where
  "OAuth1RequestValidator cg tg gg cfg =
     \<lparr>clientgetter = cg, tokengetter = tg, grantgetter = gg,
      config = (case cfg of None \<Rightarrow> Map.empty | Some c \<Rightarrow> c)\<rparr>"

text \<open>\<open>dict.get(key, default)\<close>.\<close>

definition dict_get :: "(string \<rightharpoonup> pyval) \<Rightarrow> string \<Rightarrow> pyval \<Rightarrow> pyval" where
  "dict_get d k dflt = (case d k of None \<Rightarrow> dflt | Some v \<Rightarrow> v)"

subsection \<open>Length policies\<close>

definition client_key_length :: "validator \<Rightarrow> pyval" where
  "client_key_length self =
     dict_get (config self) ''OAUTH1_PROVIDER_KEY_LENGTH'' (PTuple [PInt 20, PInt 30])"

definition reqeust_token_length :: "validator \<Rightarrow> pyval" where
  "reqeust_token_length self =
     dict_get (config self) ''OAUTH1_PROVIDER_KEY_LENGTH'' (PTuple [PInt 20, PInt 30])"

definition access_token_length :: "validator \<Rightarrow> pyval" where
  "access_token_length self =
     dict_get (config self) ''OAUTH1_PROVIDER_KEY_LENGTH'' (PTuple [PInt 20, PInt 30])"

definition nonce_length :: "validator \<Rightarrow> pyval" where
  "nonce_length self =
     dict_get (config self) ''OAUTH1_PROVIDER_KEY_LENGTH'' (PTuple [PInt 20, PInt 30])"

definition verifier_length :: "validator \<Rightarrow> pyval" where
  "verifier_length self =
     dict_get (config self) ''OAUTH1_PROVIDER_KEY_LENGTH'' (PTuple [PInt 20, PInt 30])"

subsection \<open>Secret getters\<close>

text \<open>
  \<open>get_client_secret\<close> assigns \<open>request.client\<close>, so it returns the request after the
  call next to the secret, and the list of keys the client getter was called with.
\<close>

definition get_client_secret ::
  "validator \<Rightarrow> string \<Rightarrow> 'a request_scheme \<Rightarrow>
   exn + (string \<times> 'a request_scheme \<times> string list)" where
  "get_client_secret self ck req =
     (let (req1, calls) =
        (case client req of
           None \<Rightarrow> (req\<lparr>client := clientgetter self ck\<rparr>, [ck])
         | Some _ \<Rightarrow> (req, []))
      in case client req1 of
           Some c \<Rightarrow> Inr (client_secret c, req1, calls)
         | None \<Rightarrow> Inr ([], req1, calls))"

definition get_request_token_secret ::
  "validator \<Rightarrow> string \<Rightarrow> string \<Rightarrow> 'a request_scheme \<Rightarrow> exn + string" where
  "get_request_token_secret self ck token req =
     (case grantgetter self ck token of
        Some tok \<Rightarrow> Inr (secret tok)
      | None \<Rightarrow> Inr [])"

definition get_access_token_secret ::
  "validator \<Rightarrow> string \<Rightarrow> string \<Rightarrow> 'a request_scheme \<Rightarrow> exn + string" where
  "get_access_token_secret self ck token req =
     (case tokengetter self ck token of
        Some tok \<Rightarrow> Inr (secret tok)
      | None \<Rightarrow> Inr [])"

subsection \<open>Validator predicates\<close>

definition validate_client_key :: "validator \<Rightarrow> string \<Rightarrow> 'a request_scheme \<Rightarrow> exn + bool" where
  "validate_client_key self ck req =
     (case clientgetter self ck of Some _ \<Rightarrow> Inr True | None \<Rightarrow> Inr False)"

definition validate_request_token ::
  "validator \<Rightarrow> string \<Rightarrow> string \<Rightarrow> 'a request_scheme \<Rightarrow> exn + bool" where
  "validate_request_token self ck token req =
     (case grantgetter self ck token of Some _ \<Rightarrow> Inr True | None \<Rightarrow> Inr False)"

definition validate_access_token ::
  "validator \<Rightarrow> string \<Rightarrow> string \<Rightarrow> 'a request_scheme \<Rightarrow> exn + bool" where
  "validate_access_token self ck token req =
     (case tokengetter self ck token of Some _ \<Rightarrow> Inr True | None \<Rightarrow> Inr False)"

text \<open>The body is \<open># TODO\<close> and \<open>return True\<close>: no argument is read.\<close>

definition validate_timestamp_and_nonce ::
  "validator \<Rightarrow> string \<Rightarrow> int \<Rightarrow> string \<Rightarrow> 'a request_scheme \<Rightarrow>
   string option \<Rightarrow> string option \<Rightarrow> exn + bool" where
  "validate_timestamp_and_nonce self ck timestamp nonce req request_token access_token =
     Inr True"

text \<open>
  \<open>redirect_uri\<close> is \<open>None\<close> when the caller supplied none. \<open>None in uris\<close> is false
  for a list of strings.
\<close>

definition validate_redirect_uri ::
  "validator \<Rightarrow> string \<Rightarrow> string option \<Rightarrow> 'a request_scheme \<Rightarrow> exn + bool" where
  "validate_redirect_uri self ck redirect_uri req =
     (case clientgetter self ck of
        None \<Rightarrow> Inr False
      | Some c \<Rightarrow>
          if redirect_uris c = [] \<and> redirect_uri = None then Inr True
          else (case redirect_uri of
                  None \<Rightarrow> Inr False
                | Some u \<Rightarrow> Inr (u \<in> set (redirect_uris c))))"

text \<open>
  \<open>validate_realm\<close> logs \<open>realm\<close>, a name bound neither in the method nor in the
  module: evaluating the arguments of \<open>log.debug\<close> raises \<open>NameError\<close> before the
  \<open>return True\<close> is reached.
\<close>

definition validate_realm ::
  "validator \<Rightarrow> string \<Rightarrow> string \<Rightarrow> 'a request_scheme \<Rightarrow> string option \<Rightarrow>
   string list option \<Rightarrow> exn + bool" where
  "validate_realm self ck token req uri_arg required_realm = Inl (NameError ''realm'')"

definition validate_verifier ::
  "validator \<Rightarrow> string \<Rightarrow> string \<Rightarrow> string \<Rightarrow> 'a request_scheme \<Rightarrow> exn + bool" where
  "validate_verifier self ck token verifier req = Inr True"

definition verify_request_token ::
  "validator \<Rightarrow> string \<Rightarrow> 'a request_scheme \<Rightarrow> exn + bool" where
  "verify_request_token self token req = Inr True"

text \<open>
  \<open>save_access_token\<close> and \<open>save_request_token\<close> are \<open>pass\<close>: they return \<open>None\<close>
  and leave the validator and the request, the only objects they can reach, as they
  were. The state after the call is returned.
\<close>

definition save_access_token ::
  "validator \<Rightarrow> Token \<Rightarrow> 'a request_scheme \<Rightarrow> exn + (validator \<times> 'a request_scheme)" where
  "save_access_token self token req = Inr (self, req)"

definition save_request_token ::
  "validator \<Rightarrow> Token \<Rightarrow> 'a request_scheme \<Rightarrow> exn + (validator \<times> 'a request_scheme)" where
  "save_request_token self token req = Inr (self, req)"

section \<open>The provider and its handlers\<close>

text \<open>
  Flask's request proxy, as the handlers read it: \<open>request.method\<close>, \<open>request.url\<close>,
  \<open>request.data\<close>, \<open>request.headers\<close> and \<open>request.values\<close> (the fields
  \<open>req_method\<close>, \<open>url\<close>, \<open>data\<close>, \<open>req_headers\<close> and \<open>req_values\<close>).
\<close>

record flask_request =
  req_method :: string
  url :: string
  data :: string
  req_headers :: "(string \<times> string) list"
  req_values :: "string \<rightharpoonup> string"

record flask_app =
  app_config :: "string \<rightharpoonup> pyval"

text \<open>
  oauthlib's \<open>WebApplicationServer\<close> is outside this module. The four methods the
  handlers call are taken as they are given; each returns or raises.
\<close>

record Server =
  get_realms_and_credentials ::
    "string \<Rightarrow> string \<Rightarrow> string \<Rightarrow> (string \<times> string) list \<Rightarrow>
     exn + (string list \<times> (string \<times> string) list)"
  create_authorization_response ::
    "string \<Rightarrow> string \<Rightarrow> string \<Rightarrow> (string \<times> string) list \<Rightarrow> string list \<Rightarrow>
     (string \<times> string) list \<Rightarrow> exn + (string \<times> (string \<times> string) list \<times> string \<times> int)"
  create_request_token_response ::
    "string \<Rightarrow> string \<Rightarrow> string \<Rightarrow> (string \<times> string) list \<Rightarrow> pyval \<Rightarrow>
     exn + (string \<times> (string \<times> string) list \<times> string \<times> int)"
  verify_request ::
    "string \<Rightarrow> string \<Rightarrow> string \<Rightarrow> (string \<times> string) list \<Rightarrow> string list \<Rightarrow>
     exn + (bool \<times> request)"

text \<open>
  The imported functions: \<open>Server(validator)\<close>, \<open>_extract_params()\<close> (of
  \<open>.._utils\<close>, reading Flask's request), \<open>add_params_to_uri\<close> of oauthlib and the
  method \<open>in_uri\<close> of \<open>OAuth1Error\<close>, which appends the error's parameters to the uri
  it is given.
\<close>

record env =
  Server_init :: "validator \<Rightarrow> Server"
  extract_params :: "flask_request \<Rightarrow> string \<times> string \<times> string \<times> (string \<times> string) list"
  add_params_to_uri :: "string \<Rightarrow> (string \<times> string) list \<Rightarrow> string"
  in_uri :: "oauth1_error \<Rightarrow> string option \<Rightarrow> string"

text \<open>
  \<open>OAuth1Provider\<close>. An attribute that has not been assigned is \<open>None\<close> here
  (\<open>hasattr\<close> is false, reading it raises \<open>AttributeError\<close>). The class assigns
  \<open>app\<close>, \<open>_clientgetter\<close>, \<open>_tokengetter\<close>, \<open>_grantgetter\<close> and \<open>_validator\<close>;
  \<open>error_uri\<close> is read by \<open>authorize_handler\<close> and assigned nowhere in the class, so
  it is present only when set on the instance from outside.
\<close>

record provider =
  app :: "flask_app option"
  p_clientgetter :: "(string \<Rightarrow> Client option) option"
  p_tokengetter :: "(string \<Rightarrow> string \<Rightarrow> Token option) option"
  p_grantgetter :: "(string \<Rightarrow> string \<Rightarrow> Token option) option"
  p_validator :: "validator option"
  error_uri :: "string option"

definition init_app :: "provider \<Rightarrow> flask_app \<Rightarrow> provider" where
  "init_app self a = self\<lparr>app := Some a\<rparr>"

definition OAuth1Provider :: "flask_app option \<Rightarrow> provider" where
  "OAuth1Provider a =
     (let self = \<lparr>app = None, p_clientgetter = None, p_tokengetter = None,
                  p_grantgetter = None, p_validator = None, error_uri = None\<rparr>
      in case a of None \<Rightarrow> self | Some a' \<Rightarrow> init_app self a')"

text \<open>The decorators \<open>clientgetter\<close>, \<open>tokengetter\<close> and \<open>grantgetter\<close>.\<close>

definition register_clientgetter :: "provider \<Rightarrow> (string \<Rightarrow> Client option) \<Rightarrow> provider" where
  "register_clientgetter self f = self\<lparr>p_clientgetter := Some f\<rparr>"

definition register_tokengetter ::
  "provider \<Rightarrow> (string \<Rightarrow> string \<Rightarrow> Token option) \<Rightarrow> provider" where
  "register_tokengetter self f = self\<lparr>p_tokengetter := Some f\<rparr>"

definition register_grantgetter ::
  "provider \<Rightarrow> (string \<Rightarrow> string \<Rightarrow> Token option) \<Rightarrow> provider" where
  "register_grantgetter self f = self\<lparr>p_grantgetter := Some f\<rparr>"

text \<open>
  The property \<open>server\<close>. It assigns \<open>_validator\<close> when it builds the validator, so
  the provider after the call is returned with the server.
\<close>

definition server :: "env \<Rightarrow> provider \<Rightarrow> exn + (Server \<times> provider)" where
  "server e self =
     (case p_validator self of
        Some v \<Rightarrow> Inr (Server_init e v, self)
      | None \<Rightarrow>
         (case (p_clientgetter self, p_tokengetter self, p_grantgetter self) of
            (Some cg, Some tg, Some gg) \<Rightarrow>
              (case app self of
                 None \<Rightarrow> Inl (AttributeError ''app'')
               | Some a \<Rightarrow>
                   (let v = OAuth1RequestValidator cg tg gg (Some (app_config a))
                    in Inr (Server_init e v, self\<lparr>p_validator := Some v\<rparr>)))
          | _ \<Rightarrow> Inl (RuntimeError ''application not bound to required getters'')))"

text \<open>
  What a handler hands back to Flask, and the calls it made on the way: the server's
  methods and the wrapped function \<open>f\<close>.
\<close>

datatype response =
    Redirect string
  | MakeResponse string int "(string \<times> string) list"
  | Returned pyval
  | ReturnedNone

datatype event =
    GetRealmsAndCredentials
  | CreateAuthorizationResponse
  | CreateRequestTokenResponse
  | VerifyRequest
  | Handler

definition confirm_authorization_request ::
  "env \<Rightarrow> provider \<Rightarrow> flask_request \<Rightarrow> event list \<times> (exn + response)" where
  "confirm_authorization_request e self req =
     (case server e self of
        Inl x \<Rightarrow> ([], Inl x)
      | Inr (srv, self1) \<Rightarrow>
         (case extract_params e req of
            (u, m, b, h) \<Rightarrow>
              (case create_authorization_response srv u m b h [] [] of
                 Inr ret \<Rightarrow> ([CreateAuthorizationResponse], Inr (Redirect (fst ret)))
               | Inl (OAuth1Error err) \<Rightarrow>
                   ([CreateAuthorizationResponse],
                    Inr (Redirect (in_uri e err (req_values req ''redirect_uri''))))
               | Inl x \<Rightarrow> ([CreateAuthorizationResponse], Inl x))))"

text \<open>
  \<open>authorize_handler(f)\<close>, the decorated function. On GET \<open>f\<close> receives the realms and
  credentials as keyword arguments, on POST it does not.
\<close>

definition authorize_handler ::
  "env \<Rightarrow> provider \<Rightarrow> ((string list \<times> (string \<times> string) list) option \<Rightarrow> pyval) \<Rightarrow>
   flask_request \<Rightarrow> event list \<times> (exn + response)" where
  "authorize_handler e self f req =
     (case server e self of
        Inl x \<Rightarrow> ([], Inl x)
      | Inr (srv, self1) \<Rightarrow>
         (case extract_params e req of
            (u, m, b, h) \<Rightarrow>
              (case get_realms_and_credentials srv (url req) (req_method req) (data req)
                      (req_headers req) of
                 Inl x \<Rightarrow> ([GetRealmsAndCredentials], Inl x)
               | Inr (rs, credentials) \<Rightarrow>
                   if req_method req = ''GET'' then
                     ([GetRealmsAndCredentials, Handler],
                      Inr (Returned (f (Some (rs, credentials)))))
                   else if req_method req = ''POST'' then
                     (if \<not> truthy (f None) then
                        (case error_uri self1 of
                           None \<Rightarrow>
                             ([GetRealmsAndCredentials, Handler],
                              Inl (AttributeError ''error_uri''))
                         | Some eu \<Rightarrow>
                             ([GetRealmsAndCredentials, Handler],
                              Inr (Redirect (add_params_to_uri e eu [(''error'', ''denied'')]))))
                      else
                        (case confirm_authorization_request e self1 req of
                           (evs, r) \<Rightarrow> ([GetRealmsAndCredentials, Handler] @ evs, r)))
                   else ([GetRealmsAndCredentials], Inr ReturnedNone))))"


text \<open>\<open>access_token_handler(f)\<close>: the decorated function calls \<open>f\<close> and nothing else.\<close>

definition access_token_handler ::
  "env \<Rightarrow> provider \<Rightarrow> (flask_request \<Rightarrow> pyval) \<Rightarrow> flask_request \<Rightarrow>
   event list \<times> (exn + response)" where
  "access_token_handler e self f req = ([Handler], Inr (Returned (f req)))"

text \<open>
  \<open>require_oauth(*realms)(f)\<close>, the decorated function. The call
  \<open>server.verify_request(uri, http_method, body, headers, scopes)\<close> evaluates its
  arguments first; \<open>scopes\<close> is bound neither in the function nor in the module, so
  \<open>NameError\<close> is raised before \<open>verify_request\<close> is entered. The statements after
  it (the test of \<open>valid\<close>, \<open>abort(403)\<close>, the call of \<open>f\<close>) are never reached.
\<close>

definition require_oauth ::
  "env \<Rightarrow> provider \<Rightarrow> string list \<Rightarrow> (request \<Rightarrow> pyval) \<Rightarrow> flask_request \<Rightarrow>
   event list \<times> (exn + response)" where
  "require_oauth e self required_realms f req =
     (case server e self of
        Inl x \<Rightarrow> ([], Inl x)
      | Inr (srv, self1) \<Rightarrow>
         (case extract_params e req of
            (u, m, b, h) \<Rightarrow> ([], Inl (NameError ''scopes''))))"

section \<open>Sample objects\<close>

text \<open>
  The objects of the walk-through: client \<open>abc\<close> with secret \<open>xyz\<close>, request token
  \<open>tok1\<close>/\<open>sek1\<close>, access token \<open>tok2\<close>/\<open>sek2\<close>. They are the concrete inputs
  at which the functions above are evaluated below.
\<close>

definition client_abc :: Client where
  "client_abc =
     \<lparr>client_key = ''abc'', client_secret = ''xyz'',
      redirect_uris = [''http://abc.example/cb''], realms = [''email'']\<rparr>"

definition client_bare :: Client where
  "client_bare =
     \<lparr>client_key = ''bare'', client_secret = ''s3'', redirect_uris = [], realms = []\<rparr>"

definition sample_clientgetter :: "string \<Rightarrow> Client option" where
  "sample_clientgetter k =
     (if k = ''abc'' then Some client_abc
      else if k = ''bare'' then Some client_bare else None)"

definition sample_grantgetter :: "string \<Rightarrow> string \<Rightarrow> Token option" where
  "sample_grantgetter k t =
     (if k = ''abc'' \<and> t = ''tok1'' then Some \<lparr>secret = ''sek1''\<rparr> else None)"

definition sample_tokengetter :: "string \<Rightarrow> string \<Rightarrow> Token option" where
  "sample_tokengetter k t =
     (if k = ''abc'' \<and> t = ''tok2'' then Some \<lparr>secret = ''sek2''\<rparr> else None)"

definition sample_validator :: validator where
  "sample_validator =
     OAuth1RequestValidator sample_clientgetter sample_tokengetter sample_grantgetter None"

definition sample_request :: request where
  "sample_request =
     \<lparr>uri = ''http://provider.example/api/user'', http_method = ''GET'', body = [],
      headers = [], client = None\<rparr>"

definition sample_server :: "validator \<Rightarrow> Server" where
  "sample_server v =
     \<lparr>get_realms_and_credentials =
        (\<lambda>u m b h. Inr ([], [(''resource_owner_key'', ''tok1'')])),
      create_authorization_response =
        (\<lambda>u m b h rs cs. Inl (OAuth1Error
           \<lparr>error = ''invalid_request'', description = [], error_ref = []\<rparr>)),
      create_request_token_response =
        (\<lambda>u m b h cs. Inl (OAuth1Error
           \<lparr>error = ''invalid_signature'', description = [], error_ref = []\<rparr>)),
      verify_request = (\<lambda>u m b h rs. Inr (True, sample_request))\<rparr>"

definition sample_env :: env where
  "sample_env =
     \<lparr>Server_init = sample_server,
      extract_params = (\<lambda>r. (url r, req_method r, data r, req_headers r)),
      add_params_to_uri =
        (\<lambda>u ps. u @ ''?'' @ concat (map (\<lambda>(k, v). k @ ''='' @ v) ps)),
      in_uri =
        (\<lambda>err u. (case u of None \<Rightarrow> [] | Some t \<Rightarrow> t) @ ''?error='' @ error err)\<rparr>"

definition sample_provider :: provider where
  "sample_provider =
     register_grantgetter
       (register_tokengetter
          (register_clientgetter (OAuth1Provider (Some \<lparr>app_config = Map.empty\<rparr>))
             sample_clientgetter)
          sample_tokengetter)
       sample_grantgetter"

definition sample_post :: flask_request where
  "sample_post =
     \<lparr>req_method = ''POST'', url = ''http://provider.example/oauth/authorize'',
      data = ''oauth_token=tok1'', req_headers = [],
      req_values = [''redirect_uri'' \<mapsto> ''http://abc.example/cb'']\<rparr>"

definition sample_get :: flask_request where
  "sample_get =
     \<lparr>req_method = ''GET'', url = ''http://provider.example/api/user'',
      data = [], req_headers = [], req_values = Map.empty\<rparr>"

definition sample_config :: "string \<rightharpoonup> pyval" where
  "sample_config = [''OAUTH1_PROVIDER_KEY_LENGTH'' \<mapsto> PTuple [PInt 40, PInt 50]]"




section \<open>Properties of the validator\<close>

text \<open>
  C8. The verifier length policy is the token length policy: \<open>verifier_length\<close>,
  \<open>reqeust_token_length\<close>, \<open>access_token_length\<close>, \<open>client_key_length\<close> and
  \<open>nonce_length\<close> agree on every validator. Built from a configuration that holds
  bounds under \<open>OAUTH1_PROVIDER_KEY_LENGTH\<close>, all five are those bounds; built from
  one without the key, or from no configuration, all five are \<open>(20, 30)\<close>.
\<close>

theorem length_policies_agree:
  "verifier_length v = reqeust_token_length v \<and>
   verifier_length v = access_token_length v \<and>
   verifier_length v = client_key_length v \<and>
   verifier_length v = nonce_length v \<and>
   verifier_length v =
     dict_get (config v) ''OAUTH1_PROVIDER_KEY_LENGTH'' (PTuple [PInt 20, PInt 30]) \<and>
   verifier_length (OAuth1RequestValidator cg tg gg None) = PTuple [PInt 20, PInt 30] \<and>
   reqeust_token_length (OAuth1RequestValidator cg tg gg None) = PTuple [PInt 20, PInt 30] \<and>
   access_token_length (OAuth1RequestValidator cg tg gg None) = PTuple [PInt 20, PInt 30] \<and>
   client_key_length (OAuth1RequestValidator cg tg gg None) = PTuple [PInt 20, PInt 30] \<and>
   nonce_length (OAuth1RequestValidator cg tg gg None) = PTuple [PInt 20, PInt 30] \<and>
   verifier_length (OAuth1RequestValidator cg tg gg
      (Some (cfg(''OAUTH1_PROVIDER_KEY_LENGTH'' \<mapsto> bounds)))) = bounds \<and>
   reqeust_token_length (OAuth1RequestValidator cg tg gg
      (Some (cfg(''OAUTH1_PROVIDER_KEY_LENGTH'' \<mapsto> bounds)))) = bounds \<and>
   access_token_length (OAuth1RequestValidator cg tg gg
      (Some (cfg(''OAUTH1_PROVIDER_KEY_LENGTH'' \<mapsto> bounds)))) = bounds \<and>
   client_key_length (OAuth1RequestValidator cg tg gg
      (Some (cfg(''OAUTH1_PROVIDER_KEY_LENGTH'' \<mapsto> bounds)))) = bounds \<and>
   nonce_length (OAuth1RequestValidator cg tg gg
      (Some (cfg(''OAUTH1_PROVIDER_KEY_LENGTH'' \<mapsto> bounds)))) = bounds \<and>
   verifier_length (OAuth1RequestValidator cg tg gg
      (Some (cfg(''OAUTH1_PROVIDER_KEY_LENGTH'' := None)))) = PTuple [PInt 20, PInt 30] \<and>
   reqeust_token_length (OAuth1RequestValidator cg tg gg
      (Some (cfg(''OAUTH1_PROVIDER_KEY_LENGTH'' := None)))) = PTuple [PInt 20, PInt 30] \<and>
   access_token_length (OAuth1RequestValidator cg tg gg
      (Some (cfg(''OAUTH1_PROVIDER_KEY_LENGTH'' := None)))) = PTuple [PInt 20, PInt 30] \<and>
   client_key_length (OAuth1RequestValidator cg tg gg
      (Some (cfg(''OAUTH1_PROVIDER_KEY_LENGTH'' := None)))) = PTuple [PInt 20, PInt 30] \<and>
   nonce_length (OAuth1RequestValidator cg tg gg
      (Some (cfg(''OAUTH1_PROVIDER_KEY_LENGTH'' := None)))) = PTuple [PInt 20, PInt 30]"
  by (simp add: verifier_length_def reqeust_token_length_def access_token_length_def
      client_key_length_def nonce_length_def dict_get_def OAuth1RequestValidator_def)

theorem length_policies_agree_witness:
  "verifier_length (OAuth1RequestValidator sample_clientgetter sample_tokengetter
      sample_grantgetter (Some sample_config)) = PTuple [PInt 40, PInt 50] \<and>
   reqeust_token_length (OAuth1RequestValidator sample_clientgetter sample_tokengetter
      sample_grantgetter (Some sample_config)) = PTuple [PInt 40, PInt 50] \<and>
   access_token_length (OAuth1RequestValidator sample_clientgetter sample_tokengetter
      sample_grantgetter (Some sample_config)) = PTuple [PInt 40, PInt 50] \<and>
   client_key_length (OAuth1RequestValidator sample_clientgetter sample_tokengetter
      sample_grantgetter (Some sample_config)) = PTuple [PInt 40, PInt 50] \<and>
   nonce_length (OAuth1RequestValidator sample_clientgetter sample_tokengetter
      sample_grantgetter (Some sample_config)) = PTuple [PInt 40, PInt 50] \<and>
   verifier_length sample_validator = PTuple [PInt 20, PInt 30]"
  using length_policies_agree [of sample_validator sample_clientgetter sample_tokengetter
      sample_grantgetter Map.empty "PTuple [PInt 40, PInt 50]"]
  by (simp add: sample_config_def sample_validator_def)

text \<open>
  C4. \<open>validate_client_key\<close>, \<open>validate_request_token\<close> and \<open>validate_access_token\<close>
  return a boolean and raise nothing, for every key, token and request: the result is
  always a returned value, true when the getter finds the client or token and false
  when it finds none.
\<close>

theorem validators_return_booleans:
  "validate_client_key v ck req = Inr (clientgetter v ck \<noteq> None) \<and>
   validate_request_token v ck tok req = Inr (grantgetter v ck tok \<noteq> None) \<and>
   validate_access_token v ck tok req = Inr (tokengetter v ck tok \<noteq> None)"
  by (simp add: validate_client_key_def validate_request_token_def validate_access_token_def
      split: option.splits)

text \<open>
  C5. For a client the getter finds, \<open>validate_redirect_uri\<close> accepts exactly when the
  supplied redirect uri is one of the client's registered uris, or the client registered
  none and none is supplied. For a key the getter does not find it rejects.
\<close>

theorem validate_redirect_uri_accepts_iff:
  "(clientgetter v ck = None \<longrightarrow> validate_redirect_uri v ck ru req = Inr False) \<and>
   (\<forall>c. clientgetter v ck = Some c \<longrightarrow>
      validate_redirect_uri v ck ru req =
        Inr (ru \<in> Some ` set (redirect_uris c) \<or> (redirect_uris c = [] \<and> ru = None)))"
  by (auto simp add: validate_redirect_uri_def split: option.splits)

theorem validate_redirect_uri_accepts_iff_witness:
  "validate_redirect_uri sample_validator ''abc'' (Some ''http://abc.example/cb'')
     sample_request = Inr True \<and>
   validate_redirect_uri sample_validator ''abc'' (Some ''http://evil.example/'')
     sample_request = Inr False \<and>
   validate_redirect_uri sample_validator ''abc'' None sample_request = Inr False \<and>
   validate_redirect_uri sample_validator ''bare'' None sample_request = Inr True \<and>
   validate_redirect_uri sample_validator ''nobody'' None sample_request = Inr False"
  using
    validate_redirect_uri_accepts_iff
      [of sample_validator "''abc''" "Some ''http://abc.example/cb''" sample_request]
    validate_redirect_uri_accepts_iff
      [of sample_validator "''abc''" "Some ''http://evil.example/''" sample_request]
    validate_redirect_uri_accepts_iff [of sample_validator "''abc''" None sample_request]
    validate_redirect_uri_accepts_iff [of sample_validator "''bare''" None sample_request]
    validate_redirect_uri_accepts_iff [of sample_validator "''nobody''" None sample_request]
  by (simp add: sample_validator_def OAuth1RequestValidator_def sample_clientgetter_def
      client_abc_def client_bare_def image_iff)

text \<open>
  C9, as stated, fails for \<open>get_client_secret\<close> on a request that carries a cached
  client. For the key \<open>nobody\<close> the client getter finds no client, yet the result is
  the cached client's secret \<open>s3\<close> and not the empty string; for the key \<open>abc\<close> the
  getter finds the client with secret \<open>xyz\<close>, yet the result is \<open>s3\<close>.
\<close>

theorem get_client_secret_cached_counterexample:
  "clientgetter sample_validator ''nobody'' = None \<and>
   map_sum id fst (get_client_secret sample_validator ''nobody''
      (sample_request\<lparr>client := Some client_bare\<rparr>)) = Inr ''s3'' \<and>
   map_sum id fst (get_client_secret sample_validator ''nobody''
      (sample_request\<lparr>client := Some client_bare\<rparr>)) \<noteq> Inr [] \<and>
   clientgetter sample_validator ''abc'' = Some client_abc \<and>
   client_secret client_abc = ''xyz'' \<and>
   map_sum id fst (get_client_secret sample_validator ''abc''
      (sample_request\<lparr>client := Some client_bare\<rparr>)) = Inr ''s3''"
  by (simp add: get_client_secret_def sample_validator_def OAuth1RequestValidator_def
      sample_clientgetter_def client_bare_def client_abc_def sample_request_def)

text \<open>
  C9, amended. For every key, token and request, \<open>get_request_token_secret\<close> and
  \<open>get_access_token_secret\<close> return the empty string when the getter finds no token
  and the token's secret when it finds one. \<open>get_client_secret\<close> does the same on a
  request with no cached client; on a request with a cached client it returns that
  client's secret, whatever the getter would find. None of the three raises or
  returns \<open>None\<close>.
\<close>

theorem secret_getters_by_lookup_or_cache:
  "(grantgetter v ck tok = None \<longrightarrow> get_request_token_secret v ck tok req = Inr []) \<and>
   (\<forall>t. grantgetter v ck tok = Some t \<longrightarrow>
      get_request_token_secret v ck tok req = Inr (secret t)) \<and>
   (tokengetter v ck tok = None \<longrightarrow> get_access_token_secret v ck tok req = Inr []) \<and>
   (\<forall>t. tokengetter v ck tok = Some t \<longrightarrow>
      get_access_token_secret v ck tok req = Inr (secret t)) \<and>
   (client req = None \<and> clientgetter v ck = None \<longrightarrow>
      map_sum id fst (get_client_secret v ck req) = Inr []) \<and>
   (\<forall>c. client req = None \<and> clientgetter v ck = Some c \<longrightarrow>
      map_sum id fst (get_client_secret v ck req) = Inr (client_secret c)) \<and>
   (\<forall>c. client req = Some c \<longrightarrow>
      map_sum id fst (get_client_secret v ck req) = Inr (client_secret c))"
  by (auto simp add: get_client_secret_def get_request_token_secret_def
      get_access_token_secret_def split: option.splits)

theorem secret_getters_by_lookup_or_cache_witness:
  "map_sum id fst (get_client_secret sample_validator ''nobody'' sample_request) = Inr [] \<and>
   map_sum id fst (get_client_secret sample_validator ''abc'' sample_request) = Inr ''xyz'' \<and>
   map_sum id fst (get_client_secret sample_validator ''abc''
      (sample_request\<lparr>client := Some client_bare\<rparr>)) = Inr ''s3'' \<and>
   get_request_token_secret sample_validator ''abc'' ''tok9'' sample_request = Inr [] \<and>
   get_request_token_secret sample_validator ''abc'' ''tok1'' sample_request = Inr ''sek1'' \<and>
   get_access_token_secret sample_validator ''abc'' ''tok9''
      (sample_request\<lparr>client := Some client_bare\<rparr>) = Inr [] \<and>
   get_access_token_secret sample_validator ''abc'' ''tok2''
      (sample_request\<lparr>client := Some client_bare\<rparr>) = Inr ''sek2''"
  using
    secret_getters_by_lookup_or_cache
      [of sample_validator "''nobody''" "''tok9''" sample_request]
    secret_getters_by_lookup_or_cache
      [of sample_validator "''abc''" "''tok9''" sample_request]
    secret_getters_by_lookup_or_cache
      [of sample_validator "''abc''" "''tok1''" sample_request]
    secret_getters_by_lookup_or_cache
      [of sample_validator "''abc''" "''tok9''" "sample_request\<lparr>client := Some client_bare\<rparr>"]
    secret_getters_by_lookup_or_cache
      [of sample_validator "''abc''" "''tok2''" "sample_request\<lparr>client := Some client_bare\<rparr>"]
  by (simp add: sample_validator_def OAuth1RequestValidator_def sample_clientgetter_def
      sample_grantgetter_def sample_tokengetter_def sample_request_def client_abc_def
      client_bare_def)

text \<open>
  C10. \<open>get_client_secret\<close> memoizes the client on the request. With \<open>request.client\<close>
  set, the client getter is not called, the request is returned as it was and the
  secret is the cached client's. With \<open>request.client\<close> unset, the getter is called
  once with the key, \<open>request.client\<close> becomes what it returned, and every other field
  of the request keeps its value.
\<close>

theorem get_client_secret_memoizes:
  "(\<forall>c. client req = Some c \<longrightarrow>
      get_client_secret v ck req = Inr (client_secret c, req, [])) \<and>
   (client req = None \<longrightarrow>
      get_client_secret v ck req =
        Inr (case clientgetter v ck of None \<Rightarrow> [] | Some c \<Rightarrow> client_secret c,
             req\<lparr>client := clientgetter v ck\<rparr>, [ck]) \<and>
      uri (req\<lparr>client := clientgetter v ck\<rparr>) = uri req \<and>
      http_method (req\<lparr>client := clientgetter v ck\<rparr>) = http_method req \<and>
      body (req\<lparr>client := clientgetter v ck\<rparr>) = body req \<and>
      headers (req\<lparr>client := clientgetter v ck\<rparr>) = headers req \<and>
      request.more (req\<lparr>client := clientgetter v ck\<rparr>) = request.more req)"
  by (auto simp add: get_client_secret_def split: option.splits)

theorem get_client_secret_memoizes_witness:
  "get_client_secret sample_validator ''abc'' (sample_request\<lparr>client := Some client_bare\<rparr>)
     = Inr (''s3'', sample_request\<lparr>client := Some client_bare\<rparr>, []) \<and>
   get_client_secret sample_validator ''abc'' sample_request
     = Inr (''xyz'', sample_request\<lparr>client := Some client_abc\<rparr>, [''abc'']) \<and>
   get_client_secret sample_validator ''nobody'' sample_request
     = Inr ([], sample_request\<lparr>client := None\<rparr>, [''nobody''])"
  using
    get_client_secret_memoizes
      [of "sample_request\<lparr>client := Some client_bare\<rparr>" sample_validator "''abc''"]
    get_client_secret_memoizes [of sample_request sample_validator "''abc''"]
    get_client_secret_memoizes [of sample_request sample_validator "''nobody''"]
  by (simp add: sample_validator_def OAuth1RequestValidator_def sample_clientgetter_def
      sample_request_def client_abc_def client_bare_def)

text \<open>
  The unfinished validators: whatever they are given, \<open>validate_timestamp_and_nonce\<close>,
  \<open>validate_verifier\<close> and \<open>verify_request_token\<close> accept, \<open>validate_realm\<close> raises, and
  the two save methods change nothing.
\<close>

lemma stub_validators:
  "validate_timestamp_and_nonce v ck ts n req rt at = Inr True \<and>
   validate_verifier v ck tok ver req = Inr True \<and>
   verify_request_token v tok req = Inr True \<and>
   validate_realm v ck tok req u rr = Inl (NameError ''realm'') \<and>
   save_access_token v t req = Inr (v, req) \<and>
   save_request_token v t req = Inr (v, req)"
  by (simp add: validate_timestamp_and_nonce_def validate_verifier_def
      verify_request_token_def validate_realm_def save_access_token_def
      save_request_token_def)

text \<open>
  C2, evaluated on the code. The tuple \<open>(abc, tok2, nonce1, 1000)\<close> presented twice is
  accepted twice, and the timestamps \<open>0\<close> and \<open>2000000000\<close>, which no window of 600
  seconds holds together, are both accepted: the validator has no record of nonces and
  reads no clock.
\<close>

theorem validate_timestamp_and_nonce_accepts_replay:
  "map (\<lambda>(ck, ts, n).
          validate_timestamp_and_nonce sample_validator ck ts n sample_request None
            (Some ''tok2''))
     [(''abc'', 1000, ''nonce1''), (''abc'', 1000, ''nonce1'')] = [Inr True, Inr True] \<and>
   validate_timestamp_and_nonce sample_validator ''abc'' 0 ''nonce2'' sample_request None
     (Some ''tok2'') = Inr True \<and>
   validate_timestamp_and_nonce sample_validator ''abc'' 2000000000 ''nonce3'' sample_request
     None (Some ''tok2'') = Inr True"
  by (simp add: validate_timestamp_and_nonce_def)

text \<open>
  C1, evaluated on the code. For request token \<open>tok1\<close> of client \<open>abc\<close>: the verifier
  check passes, saving the access token leaves validator and request as they were, and
  on the state after the save the request token is still found and its verifier check
  passes again, with the right verifier and with a wrong one. The access token handler
  returns what the wrapped function returns; nothing records that a token was exchanged.
\<close>

theorem request_token_exchange_not_single_use:
  "validate_verifier sample_validator ''abc'' ''tok1'' ''ver1'' sample_request = Inr True \<and>
   (case save_access_token sample_validator \<lparr>secret = ''sek2''\<rparr> sample_request of
      Inl x \<Rightarrow> False
    | Inr (v', req') \<Rightarrow>
        v' = sample_validator \<and> req' = sample_request \<and>
        validate_request_token v' ''abc'' ''tok1'' req' = Inr True \<and>
        verify_request_token v' ''tok1'' req' = Inr True \<and>
        validate_verifier v' ''abc'' ''tok1'' ''ver1'' req' = Inr True \<and>
        validate_verifier v' ''abc'' ''tok1'' ''wrong'' req' = Inr True) \<and>
   access_token_handler sample_env sample_provider (\<lambda>r. PStr ''oauth_token=tok2'') sample_post =
     ([Handler], Inr (Returned (PStr ''oauth_token=tok2'')))"
  by (simp add: validate_verifier_def save_access_token_def validate_request_token_def
      verify_request_token_def access_token_handler_def sample_validator_def
      OAuth1RequestValidator_def sample_grantgetter_def)

section \<open>Properties of the handlers\<close>


lemma server_keeps_error_uri:
  "server e self = Inr (srv, self1) \<Longrightarrow> error_uri self1 = error_uri self"
  by (auto simp add: server_def Let_def split: option.splits prod.splits)

text \<open>No method of the class gives a provider the attribute \<open>error_uri\<close>.\<close>

lemma built_provider_has_no_error_uri:
  "error_uri (OAuth1Provider a) = None \<and>
   error_uri (init_app self a') = error_uri self \<and>
   error_uri (register_clientgetter self cg) = error_uri self \<and>
   error_uri (register_tokengetter self tg) = error_uri self \<and>
   error_uri (register_grantgetter self gg) = error_uri self"
  by (simp add: OAuth1Provider_def init_app_def register_clientgetter_def
      register_tokengetter_def register_grantgetter_def Let_def split: option.splits)

lemma sample_server_ok:
  "server sample_env sample_provider =
     Inr (sample_server (OAuth1RequestValidator sample_clientgetter sample_tokengetter
            sample_grantgetter (Some Map.empty)),
          sample_provider\<lparr>p_validator := Some (OAuth1RequestValidator sample_clientgetter
            sample_tokengetter sample_grantgetter (Some Map.empty))\<rparr>)"
  by (simp add: server_def sample_provider_def sample_env_def OAuth1Provider_def init_app_def
      register_clientgetter_def register_tokengetter_def register_grantgetter_def Let_def)





text \<open>
  Once the server is there, the guard raises \<open>NameError\<close> for every request, every list
  of required realms and every wrapped function: it calls neither \<open>verify_request\<close> nor
  the function, and returns no response.
\<close>

lemma require_oauth_raises:
  "server e self = Inr (srv, self1) \<Longrightarrow>
   require_oauth e self rs f req = ([], Inl (NameError ''scopes''))"
  by (simp add: require_oauth_def split: prod.splits)

text \<open>
  C3, evaluated on the code. A request to a resource that requires the realm \<open>email\<close>
  is not answered with a denial: the guard raises \<open>NameError\<close> (the unbound name
  \<open>scopes\<close>) before the request is verified. The wrapped function is not called. The
  realm check of the validator raises \<open>NameError\<close> too (the unbound name \<open>realm\<close>).
\<close>

theorem require_oauth_raises_name_error:
  "require_oauth sample_env sample_provider [''email''] (\<lambda>r. PStr ''user data'') sample_get =
     ([], Inl (NameError ''scopes'')) \<and>
   validate_realm sample_validator ''abc'' ''tok2'' sample_request None (Some [''email'']) =
     Inl (NameError ''realm'')"
  by (simp add: require_oauth_raises [OF sample_server_ok] validate_realm_def)

text \<open>
  A denied POST calls \<open>get_realms_and_credentials\<close> and the wrapped function and
  nothing else, so \<open>create_authorization_response\<close>, which would make the verifier, is
  not reached. What it returns depends on the attribute \<open>error_uri\<close>: a redirect to it
  with \<open>error=denied\<close> when it is there, \<open>AttributeError\<close> when it is not.
\<close>

lemma authorize_handler_denied:
  assumes "server e self = Inr (srv, self1)"
    and "get_realms_and_credentials srv (url req) (req_method req) (data req) (req_headers req)
           = Inr rc"
    and "req_method req = ''POST''" and "\<not> truthy (f None)"
  shows "authorize_handler e self f req =
     ([GetRealmsAndCredentials, Handler],
      case error_uri self of
        None \<Rightarrow> Inl (AttributeError ''error_uri'')
      | Some eu \<Rightarrow> Inr (Redirect (add_params_to_uri e eu [(''error'', ''denied'')])))"
  using assms server_keeps_error_uri [OF assms(1)]
  by (auto simp add: authorize_handler_def split: prod.splits option.splits)

text \<open>
  C7, evaluated on the code. On a provider built by the class (application bound, the
  three getters registered), a POST whose authorize function returns \<open>False\<close> is not
  redirected: reading \<open>self.error_uri\<close> raises \<open>AttributeError\<close>. No verifier is made:
  \<open>create_authorization_response\<close> is not among the calls.
\<close>

theorem authorize_handler_denied_raises:
  "authorize_handler sample_env sample_provider (\<lambda>k. PBool False) sample_post =
     ([GetRealmsAndCredentials, Handler], Inl (AttributeError ''error_uri''))"
  using authorize_handler_denied [OF sample_server_ok, of sample_post
      "([], [(''resource_owner_key'', ''tok1'')])" "\<lambda>k. PBool False"]
  by (simp add: sample_server_def sample_post_def sample_provider_def OAuth1Provider_def
      init_app_def register_clientgetter_def register_tokengetter_def
      register_grantgetter_def Let_def)

end
